theory Spec2Isabelle
  imports Main
begin

section \<open>Strings\<close>

text \<open>
  Strings are byte strings. The whitespace characters are the ASCII ones that
  JavaScript's \<open>trim()\<close> and the regular expression class \<open>\s\<close> accept: TAB, LF, VT,
  FF, CR and SPACE. The Unicode spaces beyond ASCII are outside the model.
\<close>

definition is_space :: "char \<Rightarrow> bool" where
  "is_space c =
     (c = CHR 0x09 \<or> c = CHR ''\<newline>'' \<or> c = CHR 0x0B \<or> c = CHR 0x0C \<or> c = CHR 0x0D \<or>
      c = CHR '' '')"

text \<open>\<open>s.trim()\<close>: leading and trailing whitespace removed.\<close>

definition trim :: "string \<Rightarrow> string" where
  "trim s = rev (dropWhile is_space (rev (dropWhile is_space s)))"

text \<open>\<open>s.toLowerCase()\<close> on the ASCII letters.\<close>

definition to_lower :: "char \<Rightarrow> char" where
  "to_lower c =
     (case map_of (zip ''ABCDEFGHIJKLMNOPQRSTUVWXYZ'' ''abcdefghijklmnopqrstuvwxyz'') c of
        Some l \<Rightarrow> l
      | None \<Rightarrow> c)"

text \<open>\<open>xs.join(sep)\<close>.\<close>

fun join :: "string \<Rightarrow> string list \<Rightarrow> string" where
  "join sep [] = []"
| "join sep [x] = x"
| "join sep (x # y # ys) = x @ sep @ join sep (y # ys)"

section \<open>The loop state of Ralph mode (src/ralph/mode.ts)\<close>

text \<open>
  \<open>RalphState\<close>, as the implementation notes and the tests of the state manager give
  it. The counters are JavaScript numbers holding integers.
\<close>

record ralph_state =
  isActive :: bool
  isYolo :: bool
  originalPrompt :: string
  completionPromise :: "string option"
  maxIterations :: int
  currentIteration :: int

text \<open>The argument \<open>completionPromise: string | null | undefined\<close> of \<open>activate\<close>.\<close>

datatype promise_arg = Undefined | Null | Given string

text \<open>The state at process start, which \<open>deactivate()\<close> restores.\<close>

definition initial_state :: ralph_state where
  "initial_state =
     \<lparr>isActive = False, isYolo = False, originalPrompt = [], completionPromise = None,
      maxIterations = 0, currentIteration = 0\<rparr>"

text \<open>
  Modelled from the spec: the whitespace normalization of the completion matcher
  (src/ralph/mode.ts is not among the sources). Runs of whitespace, newlines included,
  collapse to single spaces, and leading and trailing whitespace is trimmed.
\<close>

fun collapse_ws :: "string \<Rightarrow> string" where
  "collapse_ws [] = []"
| "collapse_ws [c] = [if is_space c then CHR '' '' else c]"
| "collapse_ws (c # d # cs) =
     (if is_space c then
        (if is_space d then collapse_ws (d # cs) else CHR '' '' # collapse_ws (d # cs))
      else c # collapse_ws (d # cs))"

definition normalize_ws :: "string \<Rightarrow> string" where
  "normalize_ws s = trim (collapse_ws s)"

text \<open>
  Modelled from the spec: \<open>ralphMode.activate\<close> (src/ralph/mode.ts is not among the
  sources). Every field is overwritten and the counter starts at 1. An undefined phrase
  selects the built-in default phrase \<open>dflt\<close> (the constant
  \<open>DEFAULT_COMPLETION_PROMISE\<close>, a parameter here); null, the empty string and the
  token "none" in any letter case select no phrase; any other phrase is stored
  normalized. The tests of the state manager fix the same behaviour, and one of them
  activates with a phrase of three spaces and expects the completion check to succeed
  afterwards, so a phrase of whitespace only is stored, not dropped.
\<close>

definition activate ::
  "string \<Rightarrow> string \<Rightarrow> promise_arg \<Rightarrow> int \<Rightarrow> bool \<Rightarrow> ralph_state" where
  "activate dflt prompt cp maxIter yolo =
     \<lparr>isActive = True, isYolo = yolo, originalPrompt = prompt,
      completionPromise =
        (case cp of
           Undefined \<Rightarrow> Some (normalize_ws dflt)
         | Null \<Rightarrow> None
         | Given p \<Rightarrow> if p = [] \<or> map to_lower p = ''none'' then None else Some (normalize_ws p)),
      maxIterations = maxIter, currentIteration = 1\<rparr>"

text \<open>
  Modelled from the spec: \<open>ralphMode.deactivate\<close> resets every field to its zero value.
\<close>

definition deactivate :: "ralph_state \<Rightarrow> ralph_state" where
  "deactivate s = initial_state"

text \<open>
  Modelled from the spec: \<open>ralphMode.incrementIteration\<close> (the spec's \<open>advance\<close>) adds one
  to the counter and touches nothing else, active or not.
\<close>

definition incrementIteration :: "ralph_state \<Rightarrow> ralph_state" where
  "incrementIteration s = s\<lparr>currentIteration := currentIteration s + 1\<rparr>"

text \<open>
  Modelled from the spec: \<open>ralphMode.shouldContinue\<close>. The loop continues iff the state
  is active and the cap is not positive or the counter is below the cap.
\<close>

definition shouldContinue :: "ralph_state \<Rightarrow> bool" where
  "shouldContinue s =
     (isActive s \<and> (maxIterations s \<le> 0 \<or> currentIteration s < maxIterations s))"

subsection \<open>The completion matcher\<close>

text \<open>\<open>ci_prefix tag s\<close>: the lower-case \<open>tag\<close> starts \<open>s\<close>, letter case ignored.\<close>

fun ci_prefix :: "string \<Rightarrow> string \<Rightarrow> bool" where
  "ci_prefix [] s = True"
| "ci_prefix (t # ts) [] = False"
| "ci_prefix (t # ts) (c # cs) = (to_lower c = t \<and> ci_prefix ts cs)"

definition open_tag :: string where
  "open_tag = ''<promise>''"

definition close_tag :: string where
  "close_tag = ''</promise>''"

text \<open>The text after the first opening tag, if there is one.\<close>

fun after_open_tag :: "string \<Rightarrow> string option" where
  "after_open_tag [] = None"
| "after_open_tag (c # cs) =
     (if ci_prefix open_tag (c # cs) then Some (drop (length open_tag) (c # cs))
      else after_open_tag cs)"

text \<open>The text before the first closing tag, if there is one.\<close>

fun before_close_tag :: "string \<Rightarrow> string option" where
  "before_close_tag [] = None"
| "before_close_tag (c # cs) =
     (if ci_prefix close_tag (c # cs) then Some []
      else map_option ((#) c) (before_close_tag cs))"

text \<open>
  Modelled from the spec: the completion matcher \<open>matches(target, candidateText)\<close>. A
  null target never matches. Otherwise the content between the first opening tag and
  the first closing tag after it is normalized and compared, exactly and
  case-sensitively, with the target under the same normalization; a text without such
  a pair does not match, and later pairs are not looked at.
\<close>

definition matches :: "string option \<Rightarrow> string \<Rightarrow> bool" where
  "matches target candidateText =
     (case target of
        None \<Rightarrow> False
      | Some t \<Rightarrow>
          (case after_open_tag candidateText of
             None \<Rightarrow> False
           | Some rest \<Rightarrow>
               (case before_close_tag rest of
                  None \<Rightarrow> False
                | Some content \<Rightarrow> normalize_ws content = normalize_ws t)))"

text \<open>
  Modelled from the spec: \<open>ralphMode.checkForPromise(text)\<close> runs the matcher with the
  stored phrase.
\<close>

definition checkForPromise :: "ralph_state \<Rightarrow> string \<Rightarrow> bool" where
  "checkForPromise s txt = matches (completionPromise s) txt"

section \<open>The command-line handler (src/ralph/cli.ts)\<close>

subsection \<open>Reminder texts\<close>

text \<open>
  The characters of the reminders beyond ASCII are given by their UTF-8 bytes: the
  cycle sign, the check mark, and a rule of 59 double horizontal bars.
\<close>

definition glyph_cycle :: string where
  "glyph_cycle = [CHR 0xF0, CHR 0x9F, CHR 0x94, CHR 0x84]"

definition glyph_check :: string where
  "glyph_check = [CHR 0xE2, CHR 0x9C, CHR 0x93]"

definition rule_line :: string where
  "rule_line = concat (replicate 59 [CHR 0xE2, CHR 0x95, CHR 0x90])"

text \<open>A number inside a template literal: an integer in decimal.\<close>

fun show_nat :: "nat \<Rightarrow> string" where
  "show_nat n =
     (if n < 10 then [''0123456789'' ! n]
      else show_nat (n div 10) @ [''0123456789'' ! (n mod 10)])"

declare show_nat.simps [simp del]

definition show_int :: "int \<Rightarrow> string" where
  "show_int i = (if i < 0 then CHR ''-'' # show_nat (nat (- i)) else show_nat (nat i))"

definition iterInfo :: "ralph_state \<Rightarrow> string" where
  "iterInfo state =
     (if maxIterations state > 0
      then show_int (currentIteration state) @ ''/'' @ show_int (maxIterations state)
      else show_int (currentIteration state))"

definition promise_block :: "string \<Rightarrow> string" where
  "promise_block p =
     ''\<newline>'' @
     rule_line @
     ''\<newline>'' @
     ''RALPH LOOP COMPLETION PROMISE\<newline>'' @
     rule_line @
     ''\<newline>'' @
     ''\<newline>'' @
     ''To complete this loop, output this EXACT text:\<newline>'' @
     ''  <promise>'' @ p @ ''</promise>\<newline>'' @
     ''\<newline>'' @
     ''STRICT REQUIREMENTS (DO NOT VIOLATE):\<newline>'' @
     ''  '' @
     glyph_check @
     '' Use <promise> XML tags EXACTLY as shown above\<newline>'' @
     ''  '' @
     glyph_check @
     '' The statement MUST be completely and unequivocally TRUE\<newline>'' @
     ''  '' @
     glyph_check @
     '' Do NOT output false statements to exit the loop\<newline>'' @
     ''  '' @
     glyph_check @
     '' Do NOT lie even if you think you should exit\<newline>'' @
     ''\<newline>'' @
     ''IMPORTANT - Do not circumvent the loop:\<newline>'' @
     ''  Even if you believe you'' @
     [CHR 0x27] @
     ''re stuck, the task is impossible,\<newline>'' @
     ''  or you'' @
     [CHR 0x27] @
     ''ve been running too long - you MUST NOT output a\<newline>'' @
     ''  false promise statement. The loop is designed to continue\<newline>'' @
     ''  until the promise is GENUINELY TRUE. Trust the process.\<newline>'' @
     ''\<newline>'' @
     ''  If the loop should stop, the promise statement will become\<newline>'' @
     ''  true naturally. Do not force it by lying.\<newline>'' @
     rule_line @
     ''\<newline>''"

definition no_promise_block :: string where
  "no_promise_block =
     ''\<newline>'' @
     ''No completion promise set - loop runs until --max-iterations or interrupted.\<newline>''"

text \<open>
  \<open>if (state.completionPromise)\<close> holds for a phrase that is neither null nor the
  empty string.
\<close>

definition buildRalphFirstTurnReminder :: "ralph_state \<Rightarrow> string" where
  "buildRalphFirstTurnReminder state =
     ''<system-reminder>\<newline>'' @
     glyph_cycle @ '' Ralph Wiggum mode activated (iteration '' @ iterInfo state @ '')\<newline>'' @
     (case completionPromise state of
        Some p \<Rightarrow> if p \<noteq> [] then promise_block p else no_promise_block
      | None \<Rightarrow> no_promise_block) @
     ''</system-reminder>''"

definition buildRalphContinuationReminder :: "ralph_state \<Rightarrow> string" where
  "buildRalphContinuationReminder state =
     ''<system-reminder>\<newline>'' @
     glyph_cycle @ '' Ralph Wiggum mode continuation (iteration '' @ iterInfo state @ '')\<newline>'' @
     ''\<newline>'' @
     ''The previous work is preserved in files and git history.\<newline>'' @
     ''Continue where you left off, building on what you'' @ [CHR 0x27] @
     ''ve already done.\<newline>'' @
     ''</system-reminder>''"

subsection \<open>Approvals, permissions and decisions\<close>

text \<open>A JSON value, as \<open>JSON.parse\<close> returns it.\<close>

datatype json =
    JNull
  | JBool bool
  | JNum int
  | JStr string
  | JArr "json list"
  | JObj "(string \<times> json) list"

text \<open>A pending approval of the platform.\<close>

record approval =
  toolCallId :: string
  toolName :: string
  toolArgs :: string

text \<open>The answer of \<open>checkToolPermission\<close>; both texts are optional.\<close>

datatype permission_decision = P_allow | P_deny | P_ask

record permission =
  decision :: permission_decision
  matchedRule :: "string option"
  reason :: "string option"

text \<open>The type \<open>Decision\<close> of the handler.\<close>

datatype decision = Approve approval | Deny approval string

text \<open>
  The collaborators of the handler, which are not among the sources, are parameters:
  \<^item> \<open>jsonParse\<close> is \<open>JSON.parse\<close> at the type the handler asks for, a record of
    arguments; \<open>None\<close> stands for the exception on a text that is not JSON;
  \<^item> \<open>checkToolPermission\<close> is the permission check, taken as a function of the tool's
    name and its parsed arguments;
  \<^item> \<open>schemaRequired\<close> is \<open>getToolSchema(toolName)?.input_schema?.required\<close>;
  \<^item> \<open>executeApprovalBatch\<close> runs the approved tools and packs the results together
    with the denials.
  Property names that every JavaScript object inherits are not keys of a record here.
\<close>

record 'r collaborators =
  jsonParse :: "string \<Rightarrow> (string \<rightharpoonup> json) option"
  checkToolPermission :: "string \<Rightarrow> (string \<rightharpoonup> json) \<Rightarrow> permission"
  schemaRequired :: "string \<Rightarrow> string list option"
  executeApprovalBatch :: "decision list \<Rightarrow> 'r"

text \<open>\<open>safeJsonParseOr(json, defaultValue)\<close>: the default on a parse failure.\<close>

definition safeJsonParseOr ::
  "(string \<Rightarrow> (string \<rightharpoonup> json) option) \<Rightarrow> string \<Rightarrow> (string \<rightharpoonup> json) \<Rightarrow> (string \<rightharpoonup> json)" where
  "safeJsonParseOr parse txt defaultValue =
     (case parse txt of None \<Rightarrow> defaultValue | Some v \<Rightarrow> v)"

text \<open>
  \<open>`${permission.matchedRule || permission.reason}`\<close>: the rule unless it is undefined
  or empty, else the reason, and an undefined reason prints as "undefined".
\<close>

definition rule_or_reason :: "permission \<Rightarrow> string" where
  "rule_or_reason p =
     (case matchedRule p of
        Some r \<Rightarrow> if r \<noteq> [] then r else (case reason p of Some t \<Rightarrow> t | None \<Rightarrow> ''undefined'')
      | None \<Rightarrow> (case reason p of Some t \<Rightarrow> t | None \<Rightarrow> ''undefined''))"

text \<open>The required keys that are absent from the arguments or null there.\<close>

definition missing_keys :: "'r collaborators \<Rightarrow> string \<Rightarrow> (string \<rightharpoonup> json) \<Rightarrow> string list" where
  "missing_keys env name parsedArgs =
     (let required = (case schemaRequired env name of None \<Rightarrow> [] | Some r \<Rightarrow> r)
      in filter (\<lambda>key. parsedArgs key = None \<or> parsedArgs key = Some JNull) required)"

text \<open>The body of the loop over the approvals of a turn: one decision.\<close>

definition decide :: "'r collaborators \<Rightarrow> approval \<Rightarrow> decision" where
  "decide env currentApproval =
     (let parsedArgs = safeJsonParseOr (jsonParse env) (toolArgs currentApproval) Map.empty;
          perm = checkToolPermission env (toolName currentApproval) parsedArgs
      in if decision perm = P_deny \<or> decision perm = P_ask then
           Deny currentApproval
             (if decision perm = P_ask then ''Tool requires approval (Ralph CLI mode)''
              else ''Permission denied: '' @ rule_or_reason perm)
         else
           (let missing = missing_keys env (toolName currentApproval) parsedArgs
            in if length missing > 0 then
                 Deny currentApproval
                   (''Missing required parameter'' @ (if length missing > 1 then ''s'' else []) @
                    '': '' @ join '', '' missing)
               else Approve currentApproval))"

text \<open>The loop itself: the decisions are pushed in the order of the approvals.\<close>

fun decide_all :: "'r collaborators \<Rightarrow> approval list \<Rightarrow> decision list" where
  "decide_all env [] = []"
| "decide_all env (a # rest) = decide env a # decide_all env rest"

subsection \<open>Turns\<close>

text \<open>
  A line of the accumulated buffer: an assistant line with its text, an error line, or
  a line of any other kind.
\<close>

datatype line = Assistant string | Error_line string | Other_line

text \<open>
  What one turn gives the handler: the lines of the buffers after the stream is
  drained, the stop reason as the platform's text, and the approvals, which may be
  undefined.
\<close>

record turn =
  buffer :: "line list"
  stopReason :: string
  approvals :: "approval list option"

text \<open>The input of a turn: a user message, or the results of an approval batch.\<close>

datatype 'r input = User_message string | Approval_input 'r

text \<open>
  The last assistant line whose text is not blank, searching from the end of the
  buffer.
\<close>

fun nonblank_assistant :: "line \<Rightarrow> bool" where
  "nonblank_assistant (Assistant t) = (length (trim t) > 0)"
| "nonblank_assistant _ = False"

definition lastAssistant :: "line list \<Rightarrow> string option" where
  "lastAssistant ls =
     (case find nonblank_assistant (rev ls) of
        Some (Assistant t) \<Rightarrow> Some t
      | _ \<Rightarrow> None)"

subsection \<open>The handler\<close>

text \<open>
  A run returns its exit code. The model returns with it the loop state at the return
  and the inputs sent to the platform, in order.
\<close>

record 'r run_result =
  exitCode :: int
  finalState :: ralph_state
  sent :: "'r input list"

text \<open>
  Clearing the pending approvals before the first turn. The platform is a script: the
  pending approvals it reports at each retrieval, in order (an undefined list counts as
  empty). Each non-empty report is answered by one batch that denies every approval of
  the report. \<open>None\<close> is a script that ends while the platform still reports pending
  approvals: the loop has not returned.
\<close>

definition deny_pending :: "approval \<Rightarrow> decision" where
  "deny_pending a = Deny a ''Tool requires approval (Ralph CLI mode)''"

fun clear_pending ::
  "'r collaborators \<Rightarrow> 'r input list \<Rightarrow> approval list option list \<Rightarrow> 'r input list option" where
  "clear_pending env out [] = None"
| "clear_pending env out (r # rs) =
     (let pendingApprovals = (case r of None \<Rightarrow> [] | Some p \<Rightarrow> p)
      in if length pendingApprovals = 0 then Some out
         else clear_pending env
                (out @ [Approval_input (executeApprovalBatch env (map deny_pending pendingApprovals))])
                rs)"

text \<open>
  The completion check of a turn: the last non-blank assistant line exists and the
  state manager finds the promise in it.
\<close>

definition promise_matched :: "ralph_state \<Rightarrow> turn \<Rightarrow> bool" where
  "promise_matched s t =
     (case lastAssistant (buffer t) of
        Some assistantText \<Rightarrow> checkForPromise s assistantText
      | None \<Rightarrow> False)"

text \<open>
  The body of the main loop after the turn's stream is drained: it returns an exit
  code, or it goes round again with the loop state and the next input.
\<close>

datatype 'r step = Return int | Continue ralph_state "'r input"

definition loop_body :: "'r collaborators \<Rightarrow> string \<Rightarrow> ralph_state \<Rightarrow> turn \<Rightarrow> 'r step" where
  "loop_body env prompt s t =
     (if promise_matched s t then Return 0
      else if stopReason t = ''requires_approval'' then
        (let aps = (case approvals t of None \<Rightarrow> [] | Some a \<Rightarrow> a)
         in if length aps = 0 then Return 2
            else Continue s (Approval_input (executeApprovalBatch env (decide_all env aps))))
      else if stopReason t \<noteq> ''end_turn'' then Return 2
      else
        (let newState = incrementIteration s
         in Continue newState
              (User_message
                 (buildRalphContinuationReminder newState @ ''\<newline>\<newline>'' @ prompt))))"

text \<open>
  The main loop. The platform's answers are a script of turns, one for each input sent;
  \<open>None\<close> is a script that ends while the loop still runs. The state is the singleton
  of the state manager, threaded through the loop.
\<close>

fun ralph_loop ::
  "'r collaborators \<Rightarrow> string \<Rightarrow> ralph_state \<Rightarrow> 'r input \<Rightarrow> 'r input list \<Rightarrow> turn list \<Rightarrow>
     'r run_result option" where
  "ralph_loop env prompt s currentInput out [] =
     (if shouldContinue s then None
      else Some \<lparr>exitCode = 1, finalState = s, sent = out\<rparr>)"
| "ralph_loop env prompt s currentInput out (t # ts) =
     (if \<not> shouldContinue s then Some \<lparr>exitCode = 1, finalState = s, sent = out\<rparr>
      else
        (case loop_body env prompt s t of
           Return code \<Rightarrow> Some \<lparr>exitCode = code, finalState = s, sent = out @ [currentInput]\<rparr>
         | Continue s' nextInput \<Rightarrow>
             ralph_loop env prompt s' nextInput (out @ [currentInput]) ts))"

text \<open>
  \<open>handleRalphCommand\<close>: activation, the clearing of pending approvals, the first
  message, the main loop. Creating or resuming the agent and updating its skills do not
  touch the loop state or the inputs and are left out; they are taken to succeed.
\<close>

definition handleRalphCommand ::
  "'r collaborators \<Rightarrow> string \<Rightarrow> string \<Rightarrow> promise_arg \<Rightarrow> int \<Rightarrow> bool \<Rightarrow>
     approval list option list \<Rightarrow> turn list \<Rightarrow> 'r run_result option" where
  "handleRalphCommand env dflt prompt cp maxIter yolo resumes turns =
     (let ralphState = activate dflt prompt cp maxIter yolo
      in case clear_pending env [] resumes of
           None \<Rightarrow> None
         | Some out \<Rightarrow>
             ralph_loop env prompt ralphState
               (User_message (buildRalphFirstTurnReminder ralphState @ ''\<newline>\<newline>'' @ prompt))
               out turns)"

section \<open>Sample data\<close>

text \<open>Concrete collaborators, states and turns, on which the theorems below are run.\<close>

definition sample_env :: "decision list collaborators" where
  "sample_env =
     \<lparr>jsonParse =
        (\<lambda>txt. if txt = ''{}'' then Some Map.empty
               else if txt = ''{'' @ [CHR 0x22] @ ''path'' @ [CHR 0x22] @ '':1,'' @ [CHR 0x22] @ ''content'' @ [CHR 0x22] @ '':null}''
               then Some [''path'' \<mapsto> JNum 1, ''content'' \<mapsto> JNull]
               else None),
      checkToolPermission =
        (\<lambda>name args.
           if name = ''rm'' then
             \<lparr>decision = P_deny, matchedRule = Some ''Bash(rm:*)'', reason = Some ''denied by rule''\<rparr>
           else if name = ''bash'' then \<lparr>decision = P_ask, matchedRule = None, reason = None\<rparr>
           else \<lparr>decision = P_allow, matchedRule = None, reason = None\<rparr>),
      schemaRequired = (\<lambda>name. if name = ''write_file'' then Some [''path'', ''content''] else None),
      executeApprovalBatch = (\<lambda>ds. ds)\<rparr>"

definition working_turn :: turn where
  "working_turn = \<lparr>buffer = [Assistant ''working''], stopReason = ''end_turn'', approvals = None\<rparr>"







definition promise_turn :: turn where
  "promise_turn =
     \<lparr>buffer = [Assistant ''<promise>DONE</promise>''], stopReason = ''end_turn'', approvals = None\<rparr>"

definition error_turn :: turn where
  "error_turn =
     \<lparr>buffer = [Error_line ''rate limited''], stopReason = ''llm_api_error'', approvals = None\<rparr>"

definition pending_a :: approval where
  "pending_a = \<lparr>toolCallId = ''old-1'', toolName = ''bash'', toolArgs = ''{}''\<rparr>"

definition pending_b :: approval where
  "pending_b = \<lparr>toolCallId = ''old-2'', toolName = ''read_file'', toolArgs = ''{}''\<rparr>"

definition deny_batch :: "'r collaborators \<Rightarrow> approval list \<Rightarrow> 'r input" where
  "deny_batch env p =
     Approval_input
       (executeApprovalBatch env (map (\<lambda>a. Deny a ''Tool requires approval (Ralph CLI mode)'') p))"

definition first_message :: "string \<Rightarrow> string \<Rightarrow> promise_arg \<Rightarrow> int \<Rightarrow> bool \<Rightarrow> 'r input" where
  "first_message dflt prompt cp cap yolo =
     User_message
       (buildRalphFirstTurnReminder (activate dflt prompt cp cap yolo) @ ''\<newline>\<newline>'' @ prompt)"

definition partial_args :: string where
  "partial_args =
     ''{'' @ [CHR 0x22] @ ''path'' @ [CHR 0x22] @ '':1,'' @ [CHR 0x22] @ ''content'' @ [CHR 0x22] @
     '':null}''"

definition write_nothing :: approval where
  "write_nothing = \<lparr>toolCallId = ''call-1'', toolName = ''write_file'', toolArgs = ''{}''\<rparr>"

definition remove_all :: approval where
  "remove_all = \<lparr>toolCallId = ''call-2'', toolName = ''rm'', toolArgs = ''not json''\<rparr>"

definition run_shell :: approval where
  "run_shell = \<lparr>toolCallId = ''call-3'', toolName = ''bash'', toolArgs = ''{}''\<rparr>"

definition write_null :: approval where
  "write_null = \<lparr>toolCallId = ''call-4'', toolName = ''write_file'', toolArgs = partial_args\<rparr>"

definition read_it :: approval where
  "read_it = \<lparr>toolCallId = ''call-5'', toolName = ''read_file'', toolArgs = ''not json''\<rparr>"

definition sample_batch :: "approval list" where
  "sample_batch = [write_nothing, remove_all, run_shell, write_null, read_it]"

section \<open>Lemmas\<close>






lemma loop_frame:
  "ralph_loop env prompt s inp out ts = Some r \<Longrightarrow>
     finalState r = s\<lparr>currentIteration := currentIteration (finalState r)\<rparr> \<and>
     currentIteration s \<le> currentIteration (finalState r)"
proof (induction ts arbitrary: s inp out)
  case Nil
  then show ?case by (auto split: if_splits)
next
  case (Cons t ts)
  show ?case
  proof (cases "shouldContinue s")
    case False
    with Cons.prems show ?thesis by auto
  next
    case True
    show ?thesis
    proof (cases "loop_body env prompt s t")
      case (Return code)
      with True Cons.prems show ?thesis by auto
    next
      case (Continue s' nextInput)
      with True Cons.prems have "ralph_loop env prompt s' nextInput (out @ [inp]) ts = Some r" by simp
      from Cons.IH[OF this] have
        fr: "finalState r = s'\<lparr>currentIteration := currentIteration (finalState r)\<rparr>"
        and le: "currentIteration s' \<le> currentIteration (finalState r)" by simp_all
      from Continue have "s' = s \<or> s' = incrementIteration s"
        by (auto simp: loop_body_def Let_def split: if_splits)
      then show ?thesis
      proof
        assume "s' = s" with fr le show ?thesis by simp
      next
        assume i: "s' = incrementIteration s"
        have "finalState r = s\<lparr>currentIteration := currentIteration (finalState r)\<rparr>"
          using fr unfolding i incrementIteration_def by (metis ralph_state.update_convs(6) ralph_state.surjective ralph_state.select_convs)
        moreover from le i have "currentIteration s \<le> currentIteration (finalState r)"
          by (simp add: incrementIteration_def)
        ultimately show ?thesis by simp
      qed
    qed
  qed
qed

lemma loop_sent:
  "ralph_loop env prompt s inp out ts = Some r \<Longrightarrow>
     sent r = out \<or> (\<exists>more. sent r = out @ inp # more)"
proof (induction ts arbitrary: s inp out)
  case Nil
  then show ?case by (auto split: if_splits)
next
  case (Cons t ts)
  show ?case
  proof (cases "shouldContinue s")
    case False
    with Cons.prems show ?thesis by auto
  next
    case True
    show ?thesis
    proof (cases "loop_body env prompt s t")
      case (Return code)
      with True Cons.prems show ?thesis by auto
    next
      case (Continue s' nextInput)
      with True Cons.prems have "ralph_loop env prompt s' nextInput (out @ [inp]) ts = Some r" by simp
      from Cons.IH[OF this] show ?thesis by auto
    qed
  qed
qed







lemma clear_pending_none_first: "clear_pending env out (None # rs) = Some out"
  by simp

lemma activate_fields:
  "isActive (activate dflt prompt cp cap yolo)"
  "currentIteration (activate dflt prompt cp cap yolo) = 1"
  "maxIterations (activate dflt prompt cp cap yolo) = cap"
  by (simp_all add: activate_def)

lemma incr_pow_fields:
  "isActive ((incrementIteration ^^ n) s) = isActive s"
  "maxIterations ((incrementIteration ^^ n) s) = maxIterations s"
  "currentIteration ((incrementIteration ^^ n) s) = currentIteration s + int n"
  by (induction n) (simp_all add: incrementIteration_def)

lemma collapse_ws_blank:
  "s \<noteq> [] \<Longrightarrow> \<forall>c\<in>set s. is_space c \<Longrightarrow> collapse_ws s = '' ''"
  by (induction s rule: collapse_ws.induct) auto

lemma normalize_ws_blank: "\<forall>c\<in>set s. is_space c \<Longrightarrow> normalize_ws s = []"
proof (cases "s = []")
  case True
  then show ?thesis by (simp add: normalize_ws_def trim_def)
next
  case False
  assume "\<forall>c\<in>set s. is_space c"
  with False have "collapse_ws s = '' ''" by (rule collapse_ws_blank)
  then show ?thesis by (simp add: normalize_ws_def trim_def is_space_def)
qed

lemma to_lower_space: "is_space c \<Longrightarrow> to_lower c = c"
  unfolding is_space_def by (elim disjE) (simp_all add: to_lower_def)

lemma blank_not_none: "s \<noteq> [] \<Longrightarrow> \<forall>c\<in>set s. is_space c \<Longrightarrow> map to_lower s \<noteq> ''none''"
proof (cases s)
  case Nil
  assume "s \<noteq> []" with Nil show ?thesis by simp
next
  case (Cons c cs)
  assume "\<forall>c\<in>set s. is_space c"
  with Cons have sp: "is_space c" by simp
  then have "to_lower c = c" by (rule to_lower_space)
  moreover from sp have "c \<noteq> CHR ''n''" by (auto simp: is_space_def)
  ultimately show ?thesis using Cons by auto
qed

lemma three_spaces_phrase:
  "completionPromise (activate ''default'' ''task'' (Given ''   '') 0 False) = Some []"
  by (simp add: activate_def to_lower_def normalize_ws_def trim_def is_space_def)

lemma clear_pending_stuck:
  "\<forall>p\<in>set ps. p \<noteq> [] \<Longrightarrow> clear_pending env out (map Some ps) = None"
  by (induction ps arbitrary: out) auto

lemma deny_pending_fun: "deny_pending = (\<lambda>a. Deny a ''Tool requires approval (Ralph CLI mode)'')"
  by (rule ext) (simp add: deny_pending_def)

lemma clear_pending_done:
  "\<forall>p\<in>set ps. p \<noteq> [] \<Longrightarrow> emp = None \<or> emp = Some [] \<Longrightarrow>
   clear_pending env out (map Some ps @ emp # rest) = Some (out @ map (deny_batch env) ps)"
proof (induction ps arbitrary: out)
  case Nil
  then show ?case by auto
next
  case (Cons p ps)
  from Cons.prems have "p \<noteq> []" and "\<forall>p\<in>set ps. p \<noteq> []" by simp_all
  with Cons.IH[OF _ Cons.prems(2)] show ?case
    by (simp add: deny_batch_def deny_pending_fun)
qed

lemma handler_after_clearing:
  assumes "\<forall>p\<in>set ps. p \<noteq> []" and "emp = None \<or> emp = Some []"
  shows "handleRalphCommand env dflt prompt cp cap yolo (map Some ps @ emp # rest) turns =
          ralph_loop env prompt (activate dflt prompt cp cap yolo)
            (first_message dflt prompt cp cap yolo) (map (deny_batch env) ps) turns"
  using clear_pending_done[OF assms, of env "[]" rest]
  by (simp add: handleRalphCommand_def Let_def first_message_def)

lemma decide_all_map: "decide_all env aps = map (decide env) aps"
  by (induction aps) simp_all

lemma decide_cases:
  "decide env a =
     (let args = (case jsonParse env (toolArgs a) of None \<Rightarrow> Map.empty | Some m \<Rightarrow> m);
          perm = checkToolPermission env (toolName a) args;
          required = (case schemaRequired env (toolName a) of None \<Rightarrow> [] | Some ks \<Rightarrow> ks);
          missing = filter (\<lambda>k. args k = None \<or> args k = Some JNull) required
      in case decision perm of
           P_deny \<Rightarrow> Deny a (''Permission denied: '' @ rule_or_reason perm)
         | P_ask \<Rightarrow> Deny a ''Tool requires approval (Ralph CLI mode)''
         | P_allow \<Rightarrow>
             if missing = [] then Approve a
             else if length missing = 1 then
               Deny a (''Missing required parameter: '' @ join '', '' missing)
             else Deny a (''Missing required parameters: '' @ join '', '' missing))"
proof -
  let ?args = "case jsonParse env (toolArgs a) of None \<Rightarrow> Map.empty | Some m \<Rightarrow> m"
  let ?perm = "checkToolPermission env (toolName a) ?args"
  let ?missing = "missing_keys env (toolName a) ?args"
  have len: "?missing \<noteq> [] \<Longrightarrow> length ?missing \<noteq> 1 \<Longrightarrow> 1 < length ?missing"
    by (cases ?missing) simp_all
  show ?thesis
  proof (cases "decision ?perm")
    case P_allow
    then show ?thesis
      using len by (simp add: decide_def safeJsonParseOr_def Let_def missing_keys_def)
  next
    case P_deny
    then show ?thesis by (simp add: decide_def safeJsonParseOr_def Let_def)
  next
    case P_ask
    then show ?thesis by (simp add: decide_def safeJsonParseOr_def Let_def)
  qed
qed

section \<open>The claims\<close>









text \<open>
  C1. A run with an iteration cap of 3, a phrase that no turn matches and turns that
  all stop with end_turn: the handler sends two inputs, not three. After the second
  turn the counter is advanced to 3 and the loop condition fails, so the run returns
  exit code 1 with the counter at 3 while the third turn of the script is never asked
  for.
\<close>

theorem cap_three_runs_two_turns:
  "map_option (\<lambda>r. (exitCode r, currentIteration (finalState r), length (sent r)))
     (handleRalphCommand sample_env ''default'' ''task'' (Given ''DONE'') 3 False [None]
        [working_turn, working_turn, working_turn]) = Some (1, 3, 2)"
  by (simp add: handleRalphCommand_def loop_body_def promise_matched_def working_turn_def
      activate_def shouldContinue_def lastAssistant_def trim_def is_space_def checkForPromise_def
      matches_def open_tag_def to_lower_def incrementIteration_def Let_def)

text \<open>
  C3. The loop continues iff the state is active and the cap is not positive or the
  counter is below the cap. After an activation with a cap that is zero or negative the
  loop continues however often the counter is advanced; after an activation with a
  positive cap and n advances it continues iff 1 + n is below the cap.
\<close>

theorem shouldContinue_law:
  "(shouldContinue s \<longleftrightarrow>
      isActive s \<and> (maxIterations s \<le> 0 \<or> currentIteration s < maxIterations s)) \<and>
   (cap \<le> 0 \<longrightarrow>
      shouldContinue ((incrementIteration ^^ n) (activate dflt prompt cp cap yolo))) \<and>
   (0 < cap \<longrightarrow>
      (shouldContinue ((incrementIteration ^^ n) (activate dflt prompt cp cap yolo)) \<longleftrightarrow>
         1 + int n < cap))"
  by (simp add: shouldContinue_def incr_pow_fields activate_fields)

text \<open>
  C3 at caps -1 and 0 after a hundred advances, and at cap 3 after one and two advances.
\<close>

theorem shouldContinue_law_witness:
  "shouldContinue ((incrementIteration ^^ 100) (activate ''default'' ''task'' Undefined (- 1) False)) \<and>
   shouldContinue ((incrementIteration ^^ 100) (activate ''default'' ''task'' Undefined 0 False)) \<and>
   shouldContinue ((incrementIteration ^^ 1) (activate ''default'' ''task'' Undefined 3 False)) \<and>
   \<not> shouldContinue ((incrementIteration ^^ 2) (activate ''default'' ''task'' Undefined 3 False))"
proof -
  have a: "(- 1 :: int) \<le> 0" and b: "(0 :: int) \<le> 0" and c: "(0 :: int) < 3" by simp_all
  from shouldContinue_law[of _ "- 1" 100 "''default''" "''task''" Undefined False] a
  have 1: "shouldContinue ((incrementIteration ^^ 100) (activate ''default'' ''task'' Undefined (- 1) False))"
    by blast
  from shouldContinue_law[of _ 0 100 "''default''" "''task''" Undefined False] b
  have 2: "shouldContinue ((incrementIteration ^^ 100) (activate ''default'' ''task'' Undefined 0 False))"
    by blast
  from shouldContinue_law[of _ 3 1 "''default''" "''task''" Undefined False] c
  have "shouldContinue ((incrementIteration ^^ 1) (activate ''default'' ''task'' Undefined 3 False))
      \<longleftrightarrow> 1 + int 1 < 3"
    by blast
  then have 3: "shouldContinue ((incrementIteration ^^ 1) (activate ''default'' ''task'' Undefined 3 False))"
    by simp
  from shouldContinue_law[of _ 3 2 "''default''" "''task''" Undefined False] c
  have "shouldContinue ((incrementIteration ^^ 2) (activate ''default'' ''task'' Undefined 3 False))
      \<longleftrightarrow> 1 + int 2 < 3"
    by blast
  then have 4: "\<not> shouldContinue ((incrementIteration ^^ 2) (activate ''default'' ''task'' Undefined 3 False))"
    by simp
  from 1 2 3 4 show ?thesis by blast
qed

text \<open>
  C9, as stated, fails: a run that ends with exit code 0 leaves the loop state active;
  it is not the zero state.
\<close>

theorem completed_run_stays_active_counterexample:
  "map_option (\<lambda>r. (exitCode r, finalState r = initial_state, isActive (finalState r)))
     (handleRalphCommand sample_env ''default'' ''task'' (Given ''DONE'') 3 False [None]
        [promise_turn]) = Some (0, False, True)"
  by (simp add: handleRalphCommand_def loop_body_def promise_matched_def promise_turn_def
      activate_def shouldContinue_def lastAssistant_def trim_def is_space_def checkForPromise_def
      matches_def open_tag_def close_tag_def to_lower_def normalize_ws_def initial_state_def Let_def)

text \<open>
  C9, amended. The handler never deactivates. At every return of a run, whatever the
  exit code, the loop state is the state of the activation with only the counter
  changed: it is still active, its counter is at least 1, and it is not the zero state.
  The zero state comes back only by a call of deactivate, which is idempotent.
\<close>

theorem handler_never_deactivates:
  "(handleRalphCommand env dflt prompt cp cap yolo resumes turns = Some r \<longrightarrow>
      finalState r =
        (activate dflt prompt cp cap yolo)\<lparr>currentIteration := currentIteration (finalState r)\<rparr> \<and>
      1 \<le> currentIteration (finalState r) \<and>
      isActive (finalState r) \<and>
      finalState r \<noteq> initial_state) \<and>
   deactivate s = initial_state \<and>
   deactivate (deactivate s) = deactivate s"
proof (intro conjI impI)
  assume "handleRalphCommand env dflt prompt cp cap yolo resumes turns = Some r"
  then obtain inp out where
    "ralph_loop env prompt (activate dflt prompt cp cap yolo) inp out turns = Some r"
    by (auto simp: handleRalphCommand_def Let_def split: option.splits)
  from loop_frame[OF this] have
    f: "finalState r =
        (activate dflt prompt cp cap yolo)\<lparr>currentIteration := currentIteration (finalState r)\<rparr>"
    and l: "currentIteration (activate dflt prompt cp cap yolo) \<le> currentIteration (finalState r)"
    by simp_all
  show "finalState r =
        (activate dflt prompt cp cap yolo)\<lparr>currentIteration := currentIteration (finalState r)\<rparr>"
    by (rule f)
  from l show "1 \<le> currentIteration (finalState r)" by (simp add: activate_fields)
  have "isActive ((activate dflt prompt cp cap yolo)\<lparr>currentIteration := currentIteration (finalState r)\<rparr>)"
    by (simp add: activate_fields)
  with f show a: "isActive (finalState r)" by simp
  from a show "finalState r \<noteq> initial_state" by (auto simp: initial_state_def)
qed (simp_all add: deactivate_def)

text \<open>
  The amended C9 on a run that ends with exit code 2 in its second turn.
\<close>

theorem handler_never_deactivates_witness:
  "(\<exists>r. handleRalphCommand sample_env ''default'' ''task'' (Given ''DONE'') 3 False [None]
           [working_turn, error_turn] = Some r \<and> exitCode r = 2 \<and>
         finalState r = (activate ''default'' ''task'' (Given ''DONE'') 3 False)\<lparr>currentIteration := 2\<rparr> \<and>
         isActive (finalState r) \<and> finalState r \<noteq> initial_state)"
proof -
  have e: "handleRalphCommand sample_env ''default'' ''task'' (Given ''DONE'') 3 False [None]
       [working_turn, error_turn] =
     Some \<lparr>exitCode = 2,
           finalState = incrementIteration (activate ''default'' ''task'' (Given ''DONE'') 3 False),
           sent = [User_message (buildRalphFirstTurnReminder (activate ''default'' ''task'' (Given ''DONE'') 3 False) @ ''\<newline>\<newline>'' @ ''task''),
                   User_message (buildRalphContinuationReminder (incrementIteration (activate ''default'' ''task'' (Given ''DONE'') 3 False)) @ ''\<newline>\<newline>'' @ ''task'')]\<rparr>"
    (is "?h = Some ?r")
    by (simp add: handleRalphCommand_def loop_body_def promise_matched_def working_turn_def
      error_turn_def activate_def shouldContinue_def lastAssistant_def trim_def is_space_def
      checkForPromise_def matches_def open_tag_def to_lower_def incrementIteration_def Let_def)
  from handler_never_deactivates
    [of sample_env "''default''" "''task''" "Given ''DONE''" 3 False "[None]"
        "[working_turn, error_turn]" ?r] e
  have "finalState ?r =
        (activate ''default'' ''task'' (Given ''DONE'') 3 False)\<lparr>currentIteration := currentIteration (finalState ?r)\<rparr> \<and>
      isActive (finalState ?r) \<and> finalState ?r \<noteq> initial_state"
    by blast
  moreover have "currentIteration (finalState ?r) = 2"
    by (simp add: incrementIteration_def activate_def)
  ultimately show ?thesis using e by (simp add: activate_def initial_state_def)
qed

text \<open>
  C6, as stated, fails: an activation with a phrase of three spaces stores a phrase
  that is not null and is empty after normalization, and the completion check then
  succeeds on an empty pair of tags, as the test of the state manager expects.
\<close>

theorem blank_phrase_counterexample:
  "(\<exists>p. completionPromise (activate ''default'' ''task'' (Given ''   '') 0 False) = Some p \<and>
        normalize_ws p = []) \<and>
   checkForPromise (activate ''default'' ''task'' (Given ''   '') 0 False) ''<promise>   </promise>''"
proof -
  have "normalize_ws [] = []" by (simp add: normalize_ws_def trim_def)
  moreover have "matches (Some []) ''<promise>   </promise>''"
    by (simp add: to_lower_def normalize_ws_def trim_def is_space_def
      matches_def open_tag_def close_tag_def)
  ultimately show ?thesis using three_spaces_phrase by (simp add: checkForPromise_def)
qed

text \<open>
  C6, amended. After an activation the stored phrase is null exactly when the phrase
  given is null, the empty string, or the token "none" in any letter case; every other
  phrase is stored. A non-empty phrase of whitespace only is therefore stored, as a
  phrase that is empty after normalization.
\<close>

theorem activation_phrase:
  "(completionPromise (activate dflt prompt cp cap yolo) = None \<longleftrightarrow>
      cp = Null \<or> cp = Given [] \<or> (\<exists>p. cp = Given p \<and> map to_lower p = ''none'')) \<and>
   (p \<noteq> [] \<and> (\<forall>c\<in>set p. is_space c) \<longrightarrow>
      completionPromise (activate dflt prompt (Given p) cap yolo) = Some [])"
proof (intro conjI impI)
  show "completionPromise (activate dflt prompt cp cap yolo) = None \<longleftrightarrow>
      cp = Null \<or> cp = Given [] \<or> (\<exists>p. cp = Given p \<and> map to_lower p = ''none'')"
    by (cases cp) (simp_all add: activate_def)
next
  assume a: "p \<noteq> [] \<and> (\<forall>c\<in>set p. is_space c)"
  then have ne: "p \<noteq> []" and sp: "\<forall>c\<in>set p. is_space c" by simp_all
  have 1: "map to_lower p \<noteq> ''none''" by (rule blank_not_none[OF ne sp])
  have 2: "normalize_ws p = []" by (rule normalize_ws_blank[OF sp])
  show "completionPromise (activate dflt prompt (Given p) cap yolo) = Some []"
    using ne 1 2 by (simp add: activate_def)
qed

text \<open>
  The amended C6 on the phrases "NoNe", the empty string, and two spaces and a newline.
\<close>

theorem activation_phrase_witness:
  "completionPromise (activate ''default'' ''task'' (Given ''NoNe'') 0 False) = None \<and>
   completionPromise (activate ''default'' ''task'' (Given []) 0 False) = None \<and>
   completionPromise (activate ''default'' ''task'' (Given ''  \<newline>'') 0 False) = Some []"
proof -
  have h: "''  \<newline>'' \<noteq> [] \<and> (\<forall>c\<in>set ''  \<newline>''. is_space c)"
    by (simp add: is_space_def)
  note law = activation_phrase[of "''default''" "''task''" _ 0 False "''  \<newline>''"]
  have 1: "completionPromise (activate ''default'' ''task'' (Given ''NoNe'') 0 False) = None"
    using law[of "Given ''NoNe''", THEN conjunct1] by (simp add: to_lower_def)
  have 2: "completionPromise (activate ''default'' ''task'' (Given []) 0 False) = None"
    using law[of "Given []", THEN conjunct1] by simp
  have 3: "completionPromise (activate ''default'' ''task'' (Given ''  \<newline>'') 0 False) = Some []"
    by (rule law[THEN conjunct2, THEN mp, OF h])
  show ?thesis by (intro conjI 1 2 3)
qed

text \<open>
  C10. Before the first turn the handler retrieves the pending approvals again and
  again. As long as every report has pending approvals the handler has not returned
  and has not entered the main loop, so the task message is not sent. When a report is
  empty (or undefined) after the non-empty reports \<open>ps\<close>, the handler has answered each
  report of \<open>ps\<close>, in order, by one batch that denies every approval of the report with
  the reason "Tool requires approval (Ralph CLI mode)", and only then enters the main
  loop with the task message as the first input: in the inputs of a run that returns,
  the denial batches come first, and the task message, if any input follows them, is
  the next one.
\<close>

theorem pending_approvals_cleared_first:
  "(\<forall>p\<in>set ps. p \<noteq> []) \<longrightarrow>
     handleRalphCommand env dflt prompt cp cap yolo (map Some ps) turns = None \<and>
     (emp = None \<or> emp = Some [] \<longrightarrow>
        handleRalphCommand env dflt prompt cp cap yolo (map Some ps @ emp # rest) turns =
          ralph_loop env prompt (activate dflt prompt cp cap yolo)
            (first_message dflt prompt cp cap yolo) (map (deny_batch env) ps) turns \<and>
        (\<forall>r. handleRalphCommand env dflt prompt cp cap yolo (map Some ps @ emp # rest) turns = Some r \<longrightarrow>
           sent r = map (deny_batch env) ps \<or>
           (\<exists>more. sent r =
              map (deny_batch env) ps @ first_message dflt prompt cp cap yolo # more)))"
proof (intro impI conjI allI)
  assume ne: "\<forall>p\<in>set ps. p \<noteq> []"
  then show "handleRalphCommand env dflt prompt cp cap yolo (map Some ps) turns = None"
    by (simp add: handleRalphCommand_def clear_pending_stuck)
  assume emp: "emp = None \<or> emp = Some []"
  show eq: "handleRalphCommand env dflt prompt cp cap yolo (map Some ps @ emp # rest) turns =
          ralph_loop env prompt (activate dflt prompt cp cap yolo)
            (first_message dflt prompt cp cap yolo) (map (deny_batch env) ps) turns"
    by (rule handler_after_clearing[OF ne emp])
  fix r
  assume "handleRalphCommand env dflt prompt cp cap yolo (map Some ps @ emp # rest) turns = Some r"
  with eq have "ralph_loop env prompt (activate dflt prompt cp cap yolo)
            (first_message dflt prompt cp cap yolo) (map (deny_batch env) ps) turns = Some r"
    by simp
  then show "sent r = map (deny_batch env) ps \<or>
           (\<exists>more. sent r =
              map (deny_batch env) ps @ first_message dflt prompt cp cap yolo # more)"
    by (rule loop_sent)
qed

text \<open>
  C10 on a platform that reports two pending approvals, then one, then none: a script
  that stops after the two reports leaves the handler in the clearing loop; with the
  empty report the two denial batches are sent before the task message.
\<close>

theorem pending_approvals_cleared_first_witness:
  "handleRalphCommand sample_env ''default'' ''task'' (Given ''DONE'') 3 False
     [Some [pending_a, pending_b], Some [pending_b]] [promise_turn] = None \<and>
   map_option (\<lambda>r. (exitCode r, sent r))
     (handleRalphCommand sample_env ''default'' ''task'' (Given ''DONE'') 3 False
        [Some [pending_a, pending_b], Some [pending_b], None] [promise_turn]) =
     Some (0,
       [Approval_input [Deny pending_a ''Tool requires approval (Ralph CLI mode)'',
                        Deny pending_b ''Tool requires approval (Ralph CLI mode)''],
        Approval_input [Deny pending_b ''Tool requires approval (Ralph CLI mode)''],
        first_message ''default'' ''task'' (Given ''DONE'') 3 False])"
proof -
  have ne: "\<forall>p\<in>set [[pending_a, pending_b], [pending_b]]. p \<noteq> []" by simp
  have emp: "(None :: approval list option) = None \<or> (None :: approval list option) = Some []" by simp
  have x: "executeApprovalBatch sample_env = (\<lambda>ds. ds)" by (simp add: sample_env_def)
  have m: "promise_matched (activate ''default'' ''task'' (Given ''DONE'') 3 False) promise_turn"
    by (simp add: promise_matched_def promise_turn_def lastAssistant_def trim_def is_space_def
        activate_def checkForPromise_def matches_def open_tag_def close_tag_def to_lower_def
        normalize_ws_def)
  have c: "shouldContinue (activate ''default'' ''task'' (Given ''DONE'') 3 False)"
    by (simp add: activate_def shouldContinue_def)
  note law = pending_approvals_cleared_first
    [of "[[pending_a, pending_b], [pending_b]]" sample_env "''default''" "''task''" "Given ''DONE''"
        3 False "[promise_turn]" None "[]", THEN mp, OF ne]
  have fst_run: "handleRalphCommand sample_env ''default'' ''task'' (Given ''DONE'') 3 False
     [Some [pending_a, pending_b], Some [pending_b]] [promise_turn] = None"
    using law[THEN conjunct1] by simp
  have snd_run: "map_option (\<lambda>r. (exitCode r, sent r))
     (handleRalphCommand sample_env ''default'' ''task'' (Given ''DONE'') 3 False
        [Some [pending_a, pending_b], Some [pending_b], None] [promise_turn]) =
     Some (0,
       [Approval_input [Deny pending_a ''Tool requires approval (Ralph CLI mode)'',
                        Deny pending_b ''Tool requires approval (Ralph CLI mode)''],
        Approval_input [Deny pending_b ''Tool requires approval (Ralph CLI mode)''],
        first_message ''default'' ''task'' (Given ''DONE'') 3 False])"
    using law[THEN conjunct2, THEN mp, OF emp, THEN conjunct1] m c x
    by (simp add: loop_body_def deny_batch_def)
  show ?thesis by (intro conjI fst_run snd_run)
qed

text \<open>
  C4, as stated, fails in the text of one reason: the handler never writes
  "Missing required parameter(s): ". With one key missing the reason starts
  "Missing required parameter: ", with more than one "Missing required parameters: ".
\<close>

theorem missing_parameter_reason_counterexample:
  "decide_all sample_env [write_null] = [Deny write_null ''Missing required parameter: content''] \<and>
   decide_all sample_env [write_null] \<noteq>
     [Deny write_null (''Missing required parameter(s): '' @ join '', '' [''content''])] \<and>
   decide_all sample_env [write_nothing] =
     [Deny write_nothing ''Missing required parameters: path, content''] \<and>
   decide_all sample_env [write_nothing] \<noteq>
     [Deny write_nothing (''Missing required parameter(s): '' @ join '', '' [''path'', ''content''])]"
  by (simp add: decide_def sample_env_def write_null_def write_nothing_def partial_args_def
      safeJsonParseOr_def missing_keys_def Let_def)

text \<open>
  C4, amended. The decisions of a batch are as many as its approvals and in their
  order, and the decision for an approval is fixed by the approval alone: its arguments
  are parsed, an empty record standing for arguments that are not JSON; a permission
  "deny" gives a denial with "Permission denied: " and the matched rule or else the
  reason; a permission "ask" gives a denial with the fixed reason
  "Tool requires approval (Ralph CLI mode)"; a permission "allow" gives an approval if
  no required key of the tool's schema is absent or null in the arguments, and
  otherwise a denial with "Missing required parameter: " (one key) or
  "Missing required parameters: " (several) and the missing keys joined by ", ". The
  loop state, its yolo flag included, plays no part: whatever the state, the approval
  branch of the loop sends the executed decisions of the batch.
\<close>

theorem decisions_follow_arbitration:
  "length (decide_all env aps) = length aps \<and>
   (\<forall>i<length aps.
      (let a = aps ! i;
           args = (case jsonParse env (toolArgs a) of None \<Rightarrow> Map.empty | Some m \<Rightarrow> m);
           perm = checkToolPermission env (toolName a) args;
           required = (case schemaRequired env (toolName a) of None \<Rightarrow> [] | Some ks \<Rightarrow> ks);
           missing = filter (\<lambda>k. args k = None \<or> args k = Some JNull) required
       in decide_all env aps ! i =
            (case decision perm of
               P_deny \<Rightarrow> Deny a (''Permission denied: '' @ rule_or_reason perm)
             | P_ask \<Rightarrow> Deny a ''Tool requires approval (Ralph CLI mode)''
             | P_allow \<Rightarrow>
                 if missing = [] then Approve a
                 else if length missing = 1 then
                   Deny a (''Missing required parameter: '' @ join '', '' missing)
                 else Deny a (''Missing required parameters: '' @ join '', '' missing)))) \<and>
   (\<not> promise_matched s t \<and> stopReason t = ''requires_approval'' \<and> approvals t = Some aps \<and>
    aps \<noteq> [] \<longrightarrow>
      loop_body env prompt s t =
        Continue s (Approval_input (executeApprovalBatch env (decide_all env aps))))"
proof (intro conjI allI impI)
  show "length (decide_all env aps) = length aps" by (simp add: decide_all_map)
next
  fix i assume "i < length aps"
  then have "decide_all env aps ! i = decide env (aps ! i)" by (simp add: decide_all_map)
  then show "let a = aps ! i;
           args = (case jsonParse env (toolArgs a) of None \<Rightarrow> Map.empty | Some m \<Rightarrow> m);
           perm = checkToolPermission env (toolName a) args;
           required = (case schemaRequired env (toolName a) of None \<Rightarrow> [] | Some ks \<Rightarrow> ks);
           missing = filter (\<lambda>k. args k = None \<or> args k = Some JNull) required
       in decide_all env aps ! i =
            (case decision perm of
               P_deny \<Rightarrow> Deny a (''Permission denied: '' @ rule_or_reason perm)
             | P_ask \<Rightarrow> Deny a ''Tool requires approval (Ralph CLI mode)''
             | P_allow \<Rightarrow>
                 if missing = [] then Approve a
                 else if length missing = 1 then
                   Deny a (''Missing required parameter: '' @ join '', '' missing)
                 else Deny a (''Missing required parameters: '' @ join '', '' missing))"
    using decide_cases[of env "aps ! i"] by (simp add: Let_def)
next
  assume "\<not> promise_matched s t \<and> stopReason t = ''requires_approval'' \<and> approvals t = Some aps \<and>
    aps \<noteq> []"
  then show "loop_body env prompt s t =
        Continue s (Approval_input (executeApprovalBatch env (decide_all env aps)))"
    by (simp add: loop_body_def)
qed

text \<open>
  The amended C4 on a batch of five approvals, one for each kind of decision; two of
  them carry arguments that are not JSON.
\<close>

theorem decisions_follow_arbitration_witness:
  "length (decide_all sample_env sample_batch) = 5 \<and>
   decide_all sample_env sample_batch ! 0 =
     Deny write_nothing ''Missing required parameters: path, content'' \<and>
   decide_all sample_env sample_batch ! 1 = Deny remove_all ''Permission denied: Bash(rm:*)'' \<and>
   decide_all sample_env sample_batch ! 2 =
     Deny run_shell ''Tool requires approval (Ralph CLI mode)'' \<and>
   decide_all sample_env sample_batch ! 3 =
     Deny write_null ''Missing required parameter: content'' \<and>
   decide_all sample_env sample_batch ! 4 = Approve read_it"
proof -
  note law = decisions_follow_arbitration[of sample_env sample_batch]
  note each = law[THEN conjunct2, THEN conjunct1, THEN spec, THEN mp]
  have len: "length (decide_all sample_env sample_batch) = 5"
    using law[THEN conjunct1] by (simp add: sample_batch_def)
  have d0: "decide_all sample_env sample_batch ! 0 =
      Deny write_nothing ''Missing required parameters: path, content''"
    using each[of 0]
    by (simp add: sample_batch_def sample_env_def write_nothing_def Let_def)
  have d1: "decide_all sample_env sample_batch ! 1 = Deny remove_all ''Permission denied: Bash(rm:*)''"
    using each[of 1]
    by (simp add: sample_batch_def sample_env_def remove_all_def rule_or_reason_def Let_def)
  have d2: "decide_all sample_env sample_batch ! 2 =
      Deny run_shell ''Tool requires approval (Ralph CLI mode)''"
    using each[of 2]
    by (simp add: sample_batch_def sample_env_def run_shell_def Let_def)
  have d3: "decide_all sample_env sample_batch ! 3 =
      Deny write_null ''Missing required parameter: content''"
    using each[of 3]
    by (simp add: sample_batch_def sample_env_def write_null_def partial_args_def Let_def)
  have d4: "decide_all sample_env sample_batch ! 4 = Approve read_it"
    using each[of 4]
    by (simp add: sample_batch_def sample_env_def read_it_def Let_def)
  show ?thesis by (intro conjI len d0 d1 d2 d3 d4)
qed

end
